theory Spec2Isabelle
  imports Complex_Main "HOL-Library.AList"
begin

section \<open>Strings and the regular expressions of the engine\<close>

text \<open>
  A JavaScript string is modelled as a \<^typ>\<open>string\<close>, each character standing for one
  code unit in the range U+0000 to U+00FF. Numbers are modelled as exact rationals
  (\<^typ>\<open>rat\<close>), counters as natural numbers; \<open>NaN\<close> and rounding are outside the model.
\<close>

definition is_space :: "char \<Rightarrow> bool" where
  \<comment> \<open>\<open>\s\<close> of a regular expression and the characters removed by \<open>trim()\<close>\<close>
  "is_space c = ((of_char c :: nat) \<in> {9, 10, 11, 12, 13, 32, 160})"

definition is_digit :: "char \<Rightarrow> bool" where
  "is_digit c = (48 \<le> (of_char c :: nat) \<and> (of_char c :: nat) \<le> 57)"

definition is_upper :: "char \<Rightarrow> bool" where
  "is_upper c = (65 \<le> (of_char c :: nat) \<and> (of_char c :: nat) \<le> 90)"

definition lower_char :: "char \<Rightarrow> char" where
  \<comment> \<open>\<open>toLowerCase()\<close> on one code unit below U+0100: the letters \<open>A\<close> to \<open>Z\<close> and
      U+00C0 to U+00DE (without U+00D7) move up by 32, which sets the bit of weight 32\<close>
  "lower_char c =
     (let n = (of_char c :: nat)
      in if (65 \<le> n \<and> n \<le> 90) \<or> (192 \<le> n \<and> n \<le> 222 \<and> n \<noteq> 215)
         then (case c of Char b0 b1 b2 b3 b4 b5 b6 b7 \<Rightarrow> Char b0 b1 b2 b3 b4 True b6 b7)
         else c)"

definition toLowerCase :: "string \<Rightarrow> string" where
  "toLowerCase s = map lower_char s"

definition fold_case :: "char \<Rightarrow> nat" where
  \<comment> \<open>the canonical form the \<open>i\<close> flag compares, as a code unit: an ASCII letter is
      matched by its two cases only\<close>
  "fold_case c =
     (let n = (of_char c :: nat) in if 97 \<le> n \<and> n \<le> 122 then n - 32 else n)"

definition js_trim :: "string \<Rightarrow> string" where
  "js_trim s = rev (dropWhile is_space (rev (dropWhile is_space s)))"

fun js_includes :: "string \<Rightarrow> string \<Rightarrow> bool" where
  "js_includes [] sub = (sub = [])"
| "js_includes (c # cs) sub = (take (length sub) (c # cs) = sub \<or> js_includes cs sub)"

datatype rx_atom =
    Digit           \<comment> \<open>\<open>\d\<close>\<close>
  | Space           \<comment> \<open>\<open>\s\<close>\<close>
  | UpperDigit      \<comment> \<open>\<open>[A-Z0-9]\<close>\<close>
  | Lit char        \<comment> \<open>a literal character\<close>
  | LitI char       \<comment> \<open>a literal character under the \<open>i\<close> flag\<close>

datatype rx_item =
    Bol                             \<comment> \<open>\<open>^\<close>\<close>
  | Eol                             \<comment> \<open>\<open>$\<close>\<close>
  | One rx_atom
  | Rep rx_atom nat "nat option"    \<comment> \<open>greedy \<open>{lo,hi}\<close>; \<open>+\<close> is \<open>{1,}\<close>, \<open>*\<close> is \<open>{0,}\<close>\<close>
  | Group "string list"             \<comment> \<open>\<open>(A|B|...)\<close> of literals under the \<open>i\<close> flag\<close>

type_synonym regex = "rx_item list list"
  \<comment> \<open>the alternatives of the expression, each a sequence\<close>

fun atom_ok :: "rx_atom \<Rightarrow> char \<Rightarrow> bool" where
  "atom_ok Digit c = is_digit c"
| "atom_ok Space c = is_space c"
| "atom_ok UpperDigit c = (is_upper c \<or> is_digit c)"
| "atom_ok (Lit a) c = (c = a)"
| "atom_ok (LitI a) c = (fold_case c = fold_case a)"

fun first_some :: "'a option list \<Rightarrow> 'a option" where
  "first_some [] = None"
| "first_some (None # xs) = first_some xs"
| "first_some (Some x # xs) = Some x"

definition rep_counts :: "rx_atom \<Rightarrow> nat \<Rightarrow> nat option \<Rightarrow> string \<Rightarrow> nat list" where
  \<comment> \<open>the repetition counts a greedy quantifier tries, longest first\<close>
  "rep_counts a lo hi s =
     (let k = length (takeWhile (atom_ok a) s);
          k' = (case hi of None \<Rightarrow> k | Some h \<Rightarrow> min h k)
      in rev [lo..<Suc k'])"

text \<open>
  \<open>rx_seq b items s\<close> matches the sequence \<open>items\<close> at the front of \<open>s\<close> and returns the
  number of characters of the first match in backtracking order; \<open>b\<close> tells whether the
  front of \<open>s\<close> is the start of the input.
\<close>

fun rx_seq :: "bool \<Rightarrow> rx_item list \<Rightarrow> string \<Rightarrow> nat option" where
  "rx_seq b [] s = Some 0"
| "rx_seq b (Bol # r) s = (if b then rx_seq b r s else None)"
| "rx_seq b (Eol # r) s = (if s = [] then rx_seq b r s else None)"
| "rx_seq b (One a # r) s =
     (case s of [] \<Rightarrow> None
      | c # cs \<Rightarrow> if atom_ok a c then map_option Suc (rx_seq False r cs) else None)"
| "rx_seq b (Rep a lo hi # r) s =
     first_some (map (\<lambda>n. map_option ((+) n) (rx_seq (b \<and> n = 0) r (drop n s)))
                     (rep_counts a lo hi s))"
| "rx_seq b (Group alts # r) s =
     (let folded = map fold_case s
      in first_some
           (map (\<lambda>alt. map_option ((+) (length alt))
                         (rx_seq (b \<and> alt = []) r (drop (length alt) s)))
                (filter (\<lambda>alt. take (length alt) folded = map fold_case alt) alts)))"

definition rx_at :: "bool \<Rightarrow> regex \<Rightarrow> string \<Rightarrow> nat option" where
  "rx_at b rx s = first_some (map (\<lambda>alt. rx_seq b alt s) rx)"

fun rx_search :: "bool \<Rightarrow> regex \<Rightarrow> string \<Rightarrow> (nat \<times> nat) option" where
  \<comment> \<open>the leftmost match: its start and its length\<close>
  "rx_search b rx [] = map_option (Pair 0) (rx_at b rx [])"
| "rx_search b rx (c # cs) =
     (case rx_at b rx (c # cs) of
        Some n \<Rightarrow> Some (0, n)
      | None \<Rightarrow> map_option (\<lambda>(i, n). (Suc i, n)) (rx_search False rx cs))"

definition rx_test :: "regex \<Rightarrow> string \<Rightarrow> bool" where
  "rx_test rx s = (rx_search True rx s \<noteq> None)"

definition replace_first :: "regex \<Rightarrow> string \<Rightarrow> string \<Rightarrow> string" where
  \<comment> \<open>\<open>s.replace(rx, rep)\<close> without the \<open>g\<close> flag\<close>
  "replace_first rx rep s =
     (case rx_search True rx s of
        None \<Rightarrow> s
      | Some (i, n) \<Rightarrow> take i s @ rep @ drop (i + n) s)"

fun replace_from :: "bool \<Rightarrow> regex \<Rightarrow> string \<Rightarrow> nat \<Rightarrow> string \<Rightarrow> string" where
  \<comment> \<open>the scan of \<open>s.replace(rx, rep)\<close> with the \<open>g\<close> flag; \<open>k\<close> characters of the
      last match are still to be skipped\<close>
  "replace_from b rx rep k [] =
     (if k = 0 then (case rx_at b rx [] of Some _ \<Rightarrow> rep | None \<Rightarrow> []) else [])"
| "replace_from b rx rep k (c # cs) =
     (if 0 < k then replace_from False rx rep (k - 1) cs
      else (case rx_at b rx (c # cs) of
              None \<Rightarrow> c # replace_from False rx rep 0 cs
            | Some 0 \<Rightarrow> rep @ c # replace_from False rx rep 0 cs
            | Some (Suc n) \<Rightarrow> rep @ replace_from False rx rep n cs))"

definition replace_all :: "regex \<Rightarrow> string \<Rightarrow> string \<Rightarrow> string" where
  "replace_all rx rep s = replace_from True rx rep 0 s"

definition split_first :: "regex \<Rightarrow> string \<Rightarrow> string" where
  \<comment> \<open>\<open>s.split(rx)[0]\<close>\<close>
  "split_first rx s =
     (case rx_search True rx s of
        None \<Rightarrow> s
      | Some (i, n) \<Rightarrow> take i s)"

definition lit_i :: "string \<Rightarrow> rx_item list" where
  "lit_i s = map (\<lambda>c. One (LitI c)) s"

section \<open>normalizeMerchant\<close>

definition state_codes :: "string list" where
  "state_codes =
     [''AL'', ''AK'', ''AZ'', ''AR'', ''CA'', ''CO'', ''CT'', ''DE'', ''FL'', ''GA'',
      ''HI'', ''ID'', ''IL'', ''IN'', ''IA'', ''KS'', ''KY'', ''LA'', ''ME'', ''MD'',
      ''MA'', ''MI'', ''MN'', ''MS'', ''MO'', ''MT'', ''NE'', ''NV'', ''NH'', ''NJ'',
      ''NM'', ''NY'', ''NC'', ''ND'', ''OH'', ''OK'', ''OR'', ''PA'', ''RI'', ''SC'',
      ''SD'', ''TN'', ''TX'', ''UT'', ''VT'', ''VA'', ''WA'', ''WV'', ''WI'', ''WY'']"

definition cleanupPatterns :: "(bool \<times> regex) list" where
  \<comment> \<open>each expression with its \<open>g\<close> flag\<close>
  "cleanupPatterns =
     [(True,  [[One (Lit CHR ''#''), Rep Digit 1 None]]),
      (False, [[Rep Space 1 None, Rep Digit 3 (Some 5), Rep Space 0 None, Eol]]),
      (False, [[Rep Space 1 None, Group state_codes, Rep Space 0 None, Eol]]),
      (False, [Bol # lit_i ''TST'' @ [One (Lit CHR ''*''), Rep Space 0 None]]),
      (False, [Bol # lit_i ''SQ'' @ [Rep Space 0 None, One (Lit CHR ''*''), Rep Space 0 None]]),
      (False, [Bol # lit_i ''AMZN'' @ [Rep Space 1 None] @ lit_i ''MKTP'' @ [Rep Space 1 None]
                 @ lit_i ''US'' @ [One (Lit CHR ''*'')]]),
      (False, [Bol # lit_i ''POS'' @ [Rep Space 1 None]]),
      (False, [Bol # lit_i ''DEBIT'' @ [Rep Space 1 None]]),
      (False, [Bol # lit_i ''CREDIT'' @ [Rep Space 1 None]]),
      (False, [[Rep Space 1 None, Rep UpperDigit 8 None, Rep Space 0 None, Eol]]),
      (True,  [[Rep Space 1 None, Rep Digit 1 (Some 2), One (Lit CHR ''/''),
                Rep Digit 1 (Some 2), One (Lit CHR ''/''), Rep Digit 2 (Some 4)]]),
      (True,  [[Rep Space 1 None, Rep Digit 1 (Some 2), One (Lit CHR ''-''),
                Rep Digit 1 (Some 2), One (Lit CHR ''-''), Rep Digit 2 (Some 4)]])]"

definition merchantMappings :: "(regex \<times> string) list" where
  "merchantMappings =
     [([lit_i ''walmart''], ''Walmart''),
      ([lit_i ''target''], ''Target''),
      ([lit_i ''starbucks''], ''Starbucks''),
      ([lit_i ''amazon''], ''Amazon''),
      ([lit_i ''netflix''], ''Netflix''),
      ([lit_i ''spotify''], ''Spotify''),
      ([lit_i ''shell''], ''Shell''),
      ([lit_i ''chevron''], ''Chevron''),
      ([lit_i ''costco''], ''Costco''),
      ([lit_i ''safeway''], ''Safeway''),
      ([lit_i ''kroger''], ''Kroger''),
      ([lit_i ''whole'' @ [Rep Space 0 None] @ lit_i ''foods''], ''Whole Foods''),
      ([lit_i ''trader'' @ [Rep Space 0 None] @ lit_i ''joe''], ''Trader Joes''),
      ([lit_i ''home'' @ [Rep Space 0 None] @ lit_i ''depot''], ''Home Depot''),
      ([lit_i ''lowes''], ''Lowes''),
      ([lit_i ''best'' @ [Rep Space 0 None] @ lit_i ''buy''], ''Best Buy'')]"

definition cleanup :: "string \<Rightarrow> string" where
  \<comment> \<open>the \<open>forEach\<close> over \<open>cleanupPatterns\<close>\<close>
  "cleanup s =
     foldl (\<lambda>normalized (g, rx).
              if g then replace_all rx [] normalized else replace_first rx [] normalized)
           s cleanupPatterns"

definition normalizeMerchant :: "string \<Rightarrow> string" where
  "normalizeMerchant description =
     (if description = [] then []
      else
        let normalized = cleanup (js_trim description)
        in case find (\<lambda>(rx, name). rx_test rx normalized) merchantMappings of
             Some (rx, name) \<Rightarrow> name
           | None \<Rightarrow>
               let normalized = js_trim (replace_all [[Rep Space 1 None]] '' '' normalized);
                   normalized = split_first [[Rep Space 2 None], [One (Lit CHR 0x09)]]
                                  normalized
               in if 40 < length normalized then js_trim (take 40 normalized) else normalized)"

section \<open>calculateSimilarity and levenshteinDistance\<close>

definition js_set :: "'a list \<Rightarrow> nat \<Rightarrow> 'a \<Rightarrow> 'a list" where
  \<comment> \<open>\<open>xs[j] = v\<close>: an assignment at the length extends the array (the engine never
      assigns beyond it)\<close>
  "js_set xs j v = (if j < length xs then xs[j := v] else xs @ [v])"

definition lev_init :: "string \<Rightarrow> string \<Rightarrow> nat list list" where
  \<comment> \<open>the two initialising loops: \<open>matrix[i] = [i]\<close>, then \<open>matrix[0][j] = j\<close>\<close>
  "lev_init str1 str2 =
     foldl (\<lambda>matrix j. matrix[0 := js_set (matrix ! 0) j j])
           (map (\<lambda>i. [i]) [0..<Suc (length str2)])
           [0..<Suc (length str1)]"

definition lev_cell :: "string \<Rightarrow> string \<Rightarrow> nat list list \<Rightarrow> nat \<Rightarrow> nat \<Rightarrow> nat" where
  "lev_cell str1 str2 matrix i j =
     (if str2 ! (i - 1) = str1 ! (j - 1) then matrix ! (i - 1) ! (j - 1)
      else min (matrix ! (i - 1) ! (j - 1) + 1)
               (min (matrix ! i ! (j - 1) + 1) (matrix ! (i - 1) ! j + 1)))"

definition lev_row :: "string \<Rightarrow> string \<Rightarrow> nat list list \<Rightarrow> nat \<Rightarrow> nat list list" where
  \<comment> \<open>the inner loop over \<open>j\<close>\<close>
  "lev_row str1 str2 matrix i =
     foldl (\<lambda>m j. m[i := js_set (m ! i) j (lev_cell str1 str2 m i j)])
           matrix [1..<Suc (length str1)]"

definition lev_matrix :: "string \<Rightarrow> string \<Rightarrow> nat list list" where
  \<comment> \<open>the outer loop over \<open>i\<close>\<close>
  "lev_matrix str1 str2 =
     foldl (lev_row str1 str2) (lev_init str1 str2) [1..<Suc (length str2)]"

definition levenshteinDistance :: "string \<Rightarrow> string \<Rightarrow> nat" where
  "levenshteinDistance str1 str2 = lev_matrix str1 str2 ! length str2 ! length str1"

definition calculateSimilarity :: "string \<Rightarrow> string \<Rightarrow> rat" where
  "calculateSimilarity str1 str2 =
     (if str1 = [] \<or> str2 = [] then 0
      else
        let s1 = toLowerCase str1; s2 = toLowerCase str2
        in if s1 = s2 then 100
           else if js_includes s1 s2 \<or> js_includes s2 s1 then 85
           else
             let distance = levenshteinDistance s1 s2;
                 maxLen = max (length s1) (length s2);
                 similarity = ((of_nat maxLen - of_nat distance) / of_nat maxLen) * 100
             in max 0 similarity)"

section \<open>Transactions, patterns and the store\<close>

datatype recurrence = Monthly

text \<open>
  An absent, \<open>undefined\<close> or \<open>null\<close> property is \<open>None\<close>; \<open>delete t.f\<close> and \<open>t.f = null\<close>
  both give \<open>None\<close>. A date \<open>"YYYY-MM-DD"\<close> is the triple of its three numbers (a date
  of the calendar). A timestamp is a string.
\<close>

record transaction =
  t_id :: nat
  date :: "nat \<times> nat \<times> nat"
  description :: string
  amount :: rat
  categoryId :: "nat option"
  isSplit :: bool
  pendingReview :: "bool option"
  suggestionConfidence :: "rat option"
  suggestionReasoning :: "string option"
  suggestionPatternId :: "nat option"

record pattern =
  p_id :: "nat option"
  merchantName :: string
  p_categoryId :: "nat option"
  matchCount :: nat
  acceptCount :: nat
  denyCount :: nat
  lastSeen :: string
  amountMin :: "rat option"
  amountMax :: "rat option"
  isRecurring :: bool
  recurrencePattern :: "recurrence option"

definition truthy :: "'a::zero option \<Rightarrow> bool" where
  \<comment> \<open>the truth value JavaScript gives a number or an absent property: \<open>0\<close> is false\<close>
  "truthy v = (case v of None \<Rightarrow> False | Some x \<Rightarrow> x \<noteq> 0)"

record database =
  patternStore :: "pattern list"
  patternKey :: nat
  transactionStore :: "transaction list"

text \<open>
  Modelled from the spec: \<open>getPatterns\<close>, \<open>addPattern\<close> and \<open>updatePattern\<close>, the pattern
  store of the storage layer, which is not part of the sources at hand. They follow the
  object stores that are (\<open>keyPath: 'id', autoIncrement: true\<close>, \<open>getAll\<close>, \<open>add\<close>,
  \<open>put\<close>): \<open>addPattern\<close> stores the record under a fresh key and returns the key,
  \<open>updatePattern\<close> replaces the record stored under the pattern's key.
\<close>

definition getPatterns :: "database \<Rightarrow> pattern list" where
  \<comment> \<open>Modelled from the spec: \<open>getPatterns() -> list<Pattern>\<close>, absent from the sources\<close>
  "getPatterns dbs = patternStore dbs"

definition addPattern :: "database \<Rightarrow> pattern \<Rightarrow> nat \<times> database" where
  \<comment> \<open>Modelled from the spec: \<open>addPattern(Pattern) -> id\<close>, absent from the sources; the
      key generator counts from 1\<close>
  "addPattern dbs p =
     (let k = Suc (patternKey dbs)
      in (k, dbs\<lparr>patternStore := patternStore dbs @ [p\<lparr>p_id := Some k\<rparr>], patternKey := k\<rparr>))"

definition updatePattern :: "database \<Rightarrow> pattern \<Rightarrow> database" where
  \<comment> \<open>Modelled from the spec: \<open>updatePattern(Pattern) -> void\<close>, absent from the sources\<close>
  "updatePattern dbs p =
     (if p_id p = None then snd (addPattern dbs p)
      else if \<exists>q \<in> set (patternStore dbs). p_id q = p_id p
      then dbs\<lparr>patternStore := map (\<lambda>q. if p_id q = p_id p then p else q) (patternStore dbs)\<rparr>
      else dbs\<lparr>patternStore := patternStore dbs @ [p]\<rparr>)"

definition updateTransaction :: "database \<Rightarrow> transaction \<Rightarrow> database" where
  \<comment> \<open>\<open>store.put(transaction)\<close>\<close>
  "updateTransaction dbs t =
     (if \<exists>u \<in> set (transactionStore dbs). t_id u = t_id t
      then dbs\<lparr>transactionStore :=
                 map (\<lambda>u. if t_id u = t_id t then t else u) (transactionStore dbs)\<rparr>
      else dbs\<lparr>transactionStore := transactionStore dbs @ [t]\<rparr>)"

record engine =
  db :: database
  patterns :: "pattern list"
  confidenceThreshold :: rat

section \<open>detectRecurringPattern\<close>

definition date_key :: "nat \<times> nat \<times> nat \<Rightarrow> nat" where
  \<comment> \<open>the order of \<open>sort((a, b) => a - b)\<close> on dates\<close>
  "date_key d = (case d of (y, m, dd) \<Rightarrow> (y * 12 + m) * 31 + dd)"

text \<open>
  \<open>new Date("YYYY-MM-DD")\<close> is the midnight that starts the date in UTC, and \<open>getDate()\<close>
  reads the day of the month of that instant in local time. The time zone of the
  environment is a parameter: the local time minus UTC, in minutes, at that instant. It
  lies between \<open>-720\<close> and \<open>840\<close> in every zone, so the local day is the day written, or
  the day before it where local time is behind UTC.
\<close>

type_synonym zone = "nat \<times> nat \<times> nat \<Rightarrow> int"

definition leap_year :: "nat \<Rightarrow> bool" where
  "leap_year y = ((y mod 4 = 0 \<and> y mod 100 \<noteq> 0) \<or> y mod 400 = 0)"

definition days_in_month :: "nat \<Rightarrow> nat \<Rightarrow> nat" where
  "days_in_month y m =
     (if m = 2 then (if leap_year y then 29 else 28)
      else if m = 4 \<or> m = 6 \<or> m = 9 \<or> m = 11 then 30
      else 31)"

definition getDate :: "zone \<Rightarrow> nat \<times> nat \<times> nat \<Rightarrow> nat" where
  "getDate tz d =
     (case d of (y, m, dd) \<Rightarrow>
        if tz d < 0 then
          (if 1 < dd then dd - 1
           else days_in_month (if m = 1 then y - 1 else y) (if m = 1 then 12 else m - 1))
        else dd)"

definition similarTo :: "transaction \<Rightarrow> transaction \<Rightarrow> bool" where
  \<comment> \<open>the predicate of the \<open>filter\<close> in \<open>detectRecurringPattern\<close>\<close>
  "similarTo transaction t =
     (let tAmount = \<bar>amount t\<bar>;
          amount' = \<bar>amount transaction\<bar>;
          merchantName = normalizeMerchant (description transaction);
          tMerchant = normalizeMerchant (description t);
          amountMatch = (\<bar>tAmount - amount'\<bar> \<le> amount' * (1 / 10));
          merchantMatch = (calculateSimilarity merchantName tMerchant > 70)
      in amountMatch \<and> merchantMatch \<and> t_id t \<noteq> t_id transaction)"

definition detectRecurringPattern ::
  "zone \<Rightarrow> transaction \<Rightarrow> transaction list \<Rightarrow> bool \<times> recurrence option" where
  "detectRecurringPattern tz transaction historicalTransactions =
     (let similarTransactions = filter (similarTo transaction) historicalTransactions
      in if length similarTransactions < 2 then (False, None)
         else
           let dates = sort_key date_key (map date similarTransactions);
               dayOfMonth = map (getDate tz) dates;
               avgDay = (of_nat (foldl (+) 0 dayOfMonth) :: rat) / of_nat (length dayOfMonth);
               dayVariance = list_all (\<lambda>day. \<bar>of_nat day - avgDay\<bar> \<le> 3) dayOfMonth
           in if dayVariance \<and> 2 \<le> length similarTransactions then (True, Some Monthly)
              else (False, None))"

section \<open>minePatterns and updatePatternsInDatabase\<close>

function show_nat :: "nat \<Rightarrow> string" where
  \<comment> \<open>the decimal digits of a number, as a template literal prints it\<close>
  "show_nat n =
     (if n < 10 then [''0123456789'' ! n]
      else show_nat (n div 10) @ [''0123456789'' ! (n mod 10)])"
  by pat_completeness auto
termination
  by (relation "measure (\<lambda>n. n)") auto

definition show_id :: "nat option \<Rightarrow> string" where
  "show_id c = (case c of None \<Rightarrow> ''null'' | Some n \<Rightarrow> show_nat n)"

record pattern_data =
  d_merchantName :: string
  d_categoryId :: "nat option"
  d_transactions :: "transaction list"
  d_amounts :: "rat list"

type_synonym pattern_map = "(string \<times> pattern_data) list"
  \<comment> \<open>the \<open>Map\<close>, in insertion order\<close>

definition minable :: "transaction \<Rightarrow> bool" where
  \<comment> \<open>\<open>t.categoryId && !t.isSplit && !t.pendingReview\<close>\<close>
  "minable t = (truthy (categoryId t) \<and> \<not> isSplit t \<and> pendingReview t \<noteq> Some True)"

definition collect :: "pattern_map \<Rightarrow> transaction \<Rightarrow> pattern_map" where
  \<comment> \<open>the body of the \<open>forEach\<close> over the categorized transactions\<close>
  "collect patternMap transaction =
     (let merchantName = normalizeMerchant (description transaction)
      in if merchantName = [] then patternMap
         else
           let key = merchantName @ ''|'' @ show_id (categoryId transaction);
               data = (case map_of patternMap key of
                         None \<Rightarrow> \<lparr>d_merchantName = merchantName,
                                  d_categoryId = categoryId transaction,
                                  d_transactions = [], d_amounts = []\<rparr>
                       | Some d \<Rightarrow> d)
           in AList.update key
                (data\<lparr>d_transactions := d_transactions data @ [transaction],
                      d_amounts := d_amounts data @ [\<bar>amount transaction\<bar>]\<rparr>)
                patternMap)"

definition toPattern :: "zone \<Rightarrow> string \<Rightarrow> pattern_data \<Rightarrow> pattern" where
  \<comment> \<open>the body of the loop over the entries of the \<open>Map\<close>; \<open>now\<close> is the clock\<close>
  "toPattern tz now data =
     (let amounts = sort (d_amounts data);
          recurrence = detectRecurringPattern tz (hd (d_transactions data)) (d_transactions data)
      in \<lparr>p_id = None,
          merchantName = d_merchantName data,
          p_categoryId = d_categoryId data,
          matchCount = length (d_transactions data),
          acceptCount = length (d_transactions data),
          denyCount = 0,
          lastSeen = now,
          amountMin = Some (Min (set amounts)),
          amountMax = Some (Max (set amounts)),
          isRecurring = fst recurrence,
          recurrencePattern = snd recurrence\<rparr>)"

definition minedPatterns :: "zone \<Rightarrow> string \<Rightarrow> transaction list \<Rightarrow> pattern list" where
  "minedPatterns tz now transactions =
     (let categorizedTransactions = filter minable transactions;
          patternMap = foldl collect [] categorizedTransactions
      in map (\<lambda>(key, data). toPattern tz now data) patternMap)"

fun find_index :: "('a \<Rightarrow> bool) \<Rightarrow> 'a list \<Rightarrow> nat option" where
  \<comment> \<open>where \<open>find\<close> finds its element\<close>
  "find_index P [] = None"
| "find_index P (x # xs) = (if P x then Some 0 else map_option Suc (find_index P xs))"

definition or_else :: "rat option \<Rightarrow> rat \<Rightarrow> rat" where
  \<comment> \<open>\<open>v || d\<close> on a number\<close>
  "or_else v d = (case v of None \<Rightarrow> d | Some x \<Rightarrow> if x \<noteq> 0 then x else d)"

definition mergedMin :: "rat option \<Rightarrow> rat option \<Rightarrow> rat option" where
  \<comment> \<open>\<open>Math.min(existing.amountMin || Infinity, newPattern.amountMin)\<close>; a mined pattern
      always carries its range\<close>
  "mergedMin old new =
     (case new of None \<Rightarrow> None
      | Some n \<Rightarrow> if truthy old then Some (min (the old) n) else Some n)"

definition mergedMax :: "rat option \<Rightarrow> rat option \<Rightarrow> rat option" where
  \<comment> \<open>\<open>Math.max(existing.amountMax || 0, newPattern.amountMax)\<close>\<close>
  "mergedMax old new =
     (case new of None \<Rightarrow> None
      | Some n \<Rightarrow> Some (max (or_else old 0) n))"

definition mergeInto :: "pattern \<Rightarrow> pattern \<Rightarrow> pattern" where
  \<comment> \<open>the assignments of the \<open>if (existing)\<close> branch\<close>
  "mergeInto existing newPattern =
     existing\<lparr>matchCount := matchCount newPattern,
              lastSeen := lastSeen newPattern,
              amountMin := mergedMin (amountMin existing) (amountMin newPattern),
              amountMax := mergedMax (amountMax existing) (amountMax newPattern),
              isRecurring := isRecurring newPattern,
              recurrencePattern := recurrencePattern newPattern\<rparr>"

definition samePattern :: "pattern \<Rightarrow> pattern \<Rightarrow> bool" where
  "samePattern newPattern p =
     (merchantName p = merchantName newPattern \<and> p_categoryId p = p_categoryId newPattern)"

definition mergeStep :: "pattern list \<times> database \<Rightarrow> pattern \<Rightarrow> pattern list \<times> database" where
  \<comment> \<open>one round of the loop of \<open>updatePatternsInDatabase\<close>, on the list read from the
      store at its start and the store\<close>
  "mergeStep st newPattern =
     (case st of (existingPatterns, dbs) \<Rightarrow>
        (case find_index (samePattern newPattern) existingPatterns of
           Some i \<Rightarrow>
             let existing = mergeInto (existingPatterns ! i) newPattern
             in (existingPatterns[i := existing], updatePattern dbs existing)
         | None \<Rightarrow> (existingPatterns, snd (addPattern dbs newPattern))))"

definition updatePatternsInDatabase :: "database \<Rightarrow> pattern list \<Rightarrow> database" where
  "updatePatternsInDatabase dbs newPatterns =
     snd (foldl mergeStep (getPatterns dbs, dbs) newPatterns)"

definition minePatterns ::
  "engine \<Rightarrow> zone \<Rightarrow> string \<Rightarrow> transaction list \<Rightarrow> engine \<times> pattern list" where
  "minePatterns eng tz now transactions =
     (let patterns' = minedPatterns tz now transactions;
          dbs = updatePatternsInDatabase (db eng) patterns'
      in (eng\<lparr>db := dbs, patterns := getPatterns dbs\<rparr>, patterns'))"

section \<open>calculateConfidence, generateReasoning and findBestMatch\<close>

definition matchScore :: "pattern \<Rightarrow> rat" where
  "matchScore p = min 40 (of_nat (matchCount p) * 5)"

definition similarityScore :: "transaction \<Rightarrow> pattern \<Rightarrow> rat" where
  "similarityScore t p =
     calculateSimilarity (normalizeMerchant (description t)) (merchantName p)"

definition amountScore :: "transaction \<Rightarrow> pattern \<Rightarrow> rat" where
  \<comment> \<open>what factor 3 adds\<close>
  "amountScore t p =
     (let amount' = \<bar>amount t\<bar>
      in if truthy (amountMin p) \<and> truthy (amountMax p) then
           let lo = the (amountMin p); hi = the (amountMax p);
               isExactMatch = (\<bar>amount' - lo\<bar> < 1 / 100);
               isInRange = (lo \<le> amount' \<and> amount' \<le> hi);
               isCloseToRange = (lo * (9 / 10) \<le> amount' \<and> amount' \<le> hi * (11 / 10))
           in if isExactMatch then 20
              else if isInRange then 15
              else if isCloseToRange then 10
              else 0
         else 0)"

definition recurringScore :: "pattern \<Rightarrow> rat" where
  "recurringScore p = (if isRecurring p then 10 else 0)"

definition feedbackScore :: "pattern \<Rightarrow> rat" where
  \<comment> \<open>what factor 5 adds\<close>
  "feedbackScore p =
     (let totalFeedback = acceptCount p + denyCount p
      in if 0 < totalFeedback then
           let acceptRatio = (of_nat (acceptCount p) :: rat) / of_nat totalFeedback
           in if 9 / 10 \<le> acceptRatio then 10
              else if acceptRatio < 1 / 2 then - 20
              else 0
         else 0)"

definition rawConfidence :: "transaction \<Rightarrow> pattern \<Rightarrow> rat" where
  \<comment> \<open>\<open>confidence\<close> before the final clamp\<close>
  "rawConfidence t p =
     matchScore p + (similarityScore t p / 100) * 30 + amountScore t p
       + recurringScore p + feedbackScore p"

definition calculateConfidence :: "transaction \<Rightarrow> pattern \<Rightarrow> rat" where
  "calculateConfidence t p = max 0 (min 100 (rawConfidence t p))"

fun join :: "string \<Rightarrow> string list \<Rightarrow> string" where
  "join sep [] = []"
| "join sep [x] = x"
| "join sep (x # y # ys) = x @ sep @ join sep (y # ys)"

definition quoted :: "string \<Rightarrow> string" where
  \<comment> \<open>the text between two double quotes\<close>
  "quoted s = [CHR 0x22] @ s @ [CHR 0x22]"

definition generateReasoning :: "transaction \<Rightarrow> pattern \<Rightarrow> rat \<Rightarrow> string" where
  "generateReasoning t p confidence =
     (let similarity = similarityScore t p;
          amount' = \<bar>amount t\<bar>;
          parts =
            (if 95 < similarity then [''Exact match with '' @ quoted (merchantName p)]
             else if 70 < similarity then [''Similar to '' @ quoted (merchantName p)]
             else [])
            @ (if matchCount p = 1 then [''1 similar transaction'']
               else if 1 < matchCount p then [show_nat (matchCount p) @ '' similar transactions'']
               else [])
            @ (if isRecurring p then [''recurring transaction''] else [])
            @ (if truthy (amountMin p) \<and> \<bar>amount' - the (amountMin p)\<bar> < 1 / 100
               then [''exact amount match''] else [])
      in join '', '' parts)"

record match =
  m_pattern :: pattern
  m_confidence :: rat
  m_reasoning :: string

definition considerPattern :: "transaction \<Rightarrow> match option \<times> rat \<Rightarrow> pattern \<Rightarrow> match option \<times> rat" where
  \<comment> \<open>the body of the loop of \<open>findBestMatch\<close>, on \<open>(bestMatch, bestConfidence)\<close>\<close>
  "considerPattern t best p =
     (let confidence = calculateConfidence t p
      in if snd best < confidence
         then (Some \<lparr>m_pattern = p, m_confidence = confidence,
                      m_reasoning = generateReasoning t p confidence\<rparr>, confidence)
         else best)"

definition findBestMatch :: "engine \<Rightarrow> transaction \<Rightarrow> match option" where
  "findBestMatch eng t =
     (if normalizeMerchant (description t) = [] then None
      else
        let best = foldl (considerPattern t) (None, 0) (patterns eng)
        in if fst best \<noteq> None \<and> confidenceThreshold eng \<le> snd best then fst best
           else None)"

section \<open>acceptSuggestion and denySuggestion\<close>

definition clearSuggestion :: "transaction \<Rightarrow> transaction" where
  \<comment> \<open>the four \<open>delete\<close> statements\<close>
  "clearSuggestion t =
     t\<lparr>pendingReview := None, suggestionConfidence := None,
       suggestionReasoning := None, suggestionPatternId := None\<rparr>"

definition acceptSuggestion :: "engine \<Rightarrow> string \<Rightarrow> transaction \<Rightarrow> engine \<times> transaction" where
  "acceptSuggestion eng now t =
     (if \<not> truthy (suggestionPatternId t) then (eng, t)
      else
        let eng1 =
              (case find_index (\<lambda>p. p_id p = suggestionPatternId t) (patterns eng) of
                 Some i \<Rightarrow>
                   let pattern' = (patterns eng ! i)
                         \<lparr>acceptCount := acceptCount (patterns eng ! i) + 1, lastSeen := now\<rparr>
                   in eng\<lparr>patterns := (patterns eng)[i := pattern'],
                          db := updatePattern (db eng) pattern'\<rparr>
               | None \<Rightarrow> eng);
            t' = clearSuggestion t
        in (eng1\<lparr>db := updateTransaction (db eng1) t'\<rparr>, t'))"

definition denySuggestion :: "engine \<Rightarrow> transaction \<Rightarrow> engine \<times> transaction" where
  "denySuggestion eng t =
     (if \<not> truthy (suggestionPatternId t) then (eng, t)
      else
        let eng1 =
              (case find_index (\<lambda>p. p_id p = suggestionPatternId t) (patterns eng) of
                 Some i \<Rightarrow>
                   let pattern' = (patterns eng ! i)
                         \<lparr>denyCount := denyCount (patterns eng ! i) + 1\<rparr>
                   in eng\<lparr>patterns := (patterns eng)[i := pattern'],
                          db := updatePattern (db eng) pattern'\<rparr>
               | None \<Rightarrow> eng);
            t' = clearSuggestion (t\<lparr>categoryId := None\<rparr>)
        in (eng1\<lparr>db := updateTransaction (db eng1) t'\<rparr>, t'))"

section \<open>Notions used in the statements\<close>

definition matchFor :: "transaction \<Rightarrow> pattern \<Rightarrow> match" where
  \<comment> \<open>the object that \<open>findBestMatch\<close> builds for a pattern\<close>
  "matchFor t p =
     \<lparr>m_pattern = p, m_confidence = calculateConfidence t p,
      m_reasoning = generateReasoning t p (calculateConfidence t p)\<rparr>"

text \<open>
  The recurrence that the matrix of \<open>levenshteinDistance\<close> tabulates, on lists read from
  their last element, and the value it gives for a cell and for a row.
\<close>

fun edit_rec :: "'a list \<Rightarrow> 'a list \<Rightarrow> nat" where
  "edit_rec [] ys = length ys"
| "edit_rec xs [] = length xs"
| "edit_rec (x # xs) (y # ys) =
     (if x = y then edit_rec xs ys
      else min (edit_rec xs ys + 1) (min (edit_rec (x # xs) ys + 1) (edit_rec xs (y # ys) + 1)))"

definition cell_spec :: "string \<Rightarrow> string \<Rightarrow> nat \<Rightarrow> nat \<Rightarrow> nat" where
  "cell_spec str1 str2 i j = edit_rec (rev (take i str2)) (rev (take j str1))"

definition row_spec :: "string \<Rightarrow> string \<Rightarrow> nat \<Rightarrow> nat list" where
  "row_spec str1 str2 i = map (cell_spec str1 str2 i) [0..<Suc (length str1)]"

section \<open>Example records\<close>

definition ex_tx :: "nat \<Rightarrow> nat \<times> nat \<times> nat \<Rightarrow> string \<Rightarrow> rat \<Rightarrow> nat option \<Rightarrow> transaction" where
  "ex_tx i d s a c =
     \<lparr>t_id = i, date = d, description = s, amount = a, categoryId = c, isSplit = False,
      pendingReview = None, suggestionConfidence = None, suggestionReasoning = None,
      suggestionPatternId = None\<rparr>"

definition ex_suggested :: "transaction \<Rightarrow> nat \<Rightarrow> nat \<Rightarrow> transaction" where
  "ex_suggested t c k =
     t\<lparr>categoryId := Some c, pendingReview := Some True, suggestionConfidence := Some 80,
       suggestionReasoning := Some ''5 similar transactions'', suggestionPatternId := Some k\<rparr>"

definition ex_pattern ::
  "nat \<Rightarrow> string \<Rightarrow> nat \<Rightarrow> nat \<Rightarrow> nat \<Rightarrow> nat \<Rightarrow> rat option \<Rightarrow> rat option \<Rightarrow> bool \<Rightarrow> pattern" where
  "ex_pattern k name c n acc den lo hi r =
     \<lparr>p_id = Some k, merchantName = name, p_categoryId = Some c, matchCount = n,
      acceptCount = acc, denyCount = den, lastSeen = ''2024-06-01T00:00:00.000Z'',
      amountMin = lo, amountMax = hi, isRecurring = r,
      recurrencePattern = (if r then Some Monthly else None)\<rparr>"

definition ex_engine :: "pattern list \<Rightarrow> rat \<Rightarrow> engine" where
  "ex_engine ps threshold =
     \<lparr>db = \<lparr>patternStore = ps, patternKey = length ps, transactionStore = []\<rparr>,
      patterns = ps, confidenceThreshold = threshold\<rparr>"

definition ex_history :: "transaction list" where
  "ex_history =
     [ex_tx 1 (2024, 1, 5) ''WALMART #1234'' (- 40) (Some 3),
      ex_tx 2 (2024, 2, 7) ''WALMART #1234'' (- 52) (Some 3),
      ex_tx 3 (2024, 3, 6) ''WALMART #1234'' (- 60) (Some 3),
      ex_tx 4 (2024, 4, 20) ''WALMART #1234'' (- 45) (Some 3),
      ex_tx 5 (2024, 5, 11) ''WALMART #1234'' (- 57) (Some 3)]"

section \<open>Auxiliary facts\<close>

lemma find_index_None: "find_index P xs = None \<longleftrightarrow> (\<forall>x \<in> set xs. \<not> P x)"
  by (induction xs) auto

lemma find_index_Some:
  "find_index P xs = Some i \<longleftrightarrow> i < length xs \<and> P (xs ! i) \<and> (\<forall>j < i. \<not> P (xs ! j))"
proof (induction xs arbitrary: i)
  case Nil
  then show ?case by simp
next
  case (Cons x xs)
  show ?case
  proof (cases "P x")
    case True
    then show ?thesis by (cases i) auto
  next
    case False
    show ?thesis
    proof (cases i)
      case 0
      with False show ?thesis by auto
    next
      case (Suc k)
      with False Cons.IH [of k] show ?thesis
        by (auto simp: less_Suc_eq_0_disj)
    qed
  qed
qed

lemma in_updateTransaction: "t \<in> set (transactionStore (updateTransaction dbs t))"
  by (auto simp: updateTransaction_def)

lemmas ex_defs = ex_tx_def ex_pattern_def ex_engine_def
lemmas score_defs = calculateConfidence_def rawConfidence_def matchScore_def similarityScore_def
  amountScore_def recurringScore_def feedbackScore_def truthy_def

lemma filter_state_codes:
  "filter P state_codes =
     filter P [''AL'', ''AK'', ''AZ'', ''AR'', ''CA'', ''CO'', ''CT'', ''DE'', ''FL'', ''GA'',
      ''HI'', ''ID'', ''IL'', ''IN'', ''IA'', ''KS'', ''KY'', ''LA'', ''ME'', ''MD'',
      ''MA'', ''MI'', ''MN'', ''MS'', ''MO'', ''MT'', ''NE'', ''NV'', ''NH'', ''NJ'',
      ''NM'', ''NY'', ''NC'', ''ND'', ''OH'', ''OK'', ''OR'', ''PA'', ''RI'', ''SC'',
      ''SD'', ''TN'', ''TX'', ''UT'', ''VT'', ''VA'', ''WA'', ''WV'', ''WI'', ''WY'']"
  by (simp only: state_codes_def)

lemmas rx_eval = is_space_def is_digit_def is_upper_def fold_case_def js_trim_def
  rep_counts_def rx_at_def rx_test_def replace_first_def replace_all_def split_first_def lit_i_def
  filter_state_codes Let_def
lemmas nm_eval = rx_eval cleanup_def cleanupPatterns_def normalizeMerchant_def merchantMappings_def
lemmas lev_eval = calculateSimilarity_def toLowerCase_def lower_char_def levenshteinDistance_def
  lev_matrix_def lev_row_def lev_cell_def lev_init_def js_set_def Let_def

lemma nm_walmart_9981: "normalizeMerchant ''WALMART #9981'' = ''Walmart''"
  by (simp add: nm_eval)
lemma sim_walmart: "calculateSimilarity ''Walmart'' ''Walmart'' = 100"
  by (simp add: calculateSimilarity_def)
lemma sim_walmart_netflix: "calculateSimilarity ''Walmart'' ''Netflix'' = 0"
  by (simp add: lev_eval)

section \<open>The confidence score\<close>

text \<open>
  Claim C7. For every transaction and every pattern, \<open>calculateConfidence\<close> returns a
  value between 0 and 100, also when the sum of the five factors lies outside that range:
  the example that follows has a sum of 110, clamped to 100, and a sum of \<open>-15\<close>, clamped
  to 0.
\<close>

theorem calculateConfidence_clamped:
  "0 \<le> calculateConfidence t p \<and> calculateConfidence t p \<le> 100"
  by (simp add: calculateConfidence_def)

theorem calculateConfidence_clamped_witness:
  "rawConfidence (ex_tx 9 (2024, 6, 1) ''WALMART #9981'' (- 40) None)
       (ex_pattern 1 ''Walmart'' 3 8 8 0 (Some 40) (Some 60) True) = 110
   \<and> calculateConfidence (ex_tx 9 (2024, 6, 1) ''WALMART #9981'' (- 40) None)
       (ex_pattern 1 ''Walmart'' 3 8 8 0 (Some 40) (Some 60) True) = 100
   \<and> rawConfidence (ex_tx 9 (2024, 6, 1) ''WALMART #9981'' (- 40) None)
       (ex_pattern 2 ''Netflix'' 3 1 0 3 (Some 10) (Some 20) False) = - 15
   \<and> calculateConfidence (ex_tx 9 (2024, 6, 1) ''WALMART #9981'' (- 40) None)
       (ex_pattern 2 ''Netflix'' 3 1 0 3 (Some 10) (Some 20) False) = 0"
  using calculateConfidence_clamped
    [of "ex_tx 9 (2024, 6, 1) ''WALMART #9981'' (- 40) None"
        "ex_pattern 1 ''Walmart'' 3 8 8 0 (Some 40) (Some 60) True"]
  by (simp add: score_defs ex_defs nm_walmart_9981 sim_walmart sim_walmart_netflix)

lemma amountScore_tiers:
  assumes "amountMin p = Some lo" and "amountMax p = Some hi" and "lo \<noteq> 0" and "hi \<noteq> 0"
  shows "amountScore t p =
           (if \<bar>\<bar>amount t\<bar> - lo\<bar> < 1 / 100 then 20
            else if lo \<le> \<bar>amount t\<bar> \<and> \<bar>amount t\<bar> \<le> hi then 15
            else if lo * (9 / 10) \<le> \<bar>amount t\<bar> \<and> \<bar>amount t\<bar> \<le> hi * (11 / 10) then 10
            else 0)"
  using assms by (simp add: amountScore_def truthy_def Let_def)

lemma amountScore_no_range:
  assumes "amountMin p = None \<or> amountMax p = None"
  shows "amountScore t p = 0"
  using assms by (auto simp: amountScore_def truthy_def)

text \<open>
  Claim C3. A pattern with a recorded range whose \<open>amountMin\<close> is 0 gets no amount
  points: the guard \<open>pattern.amountMin && pattern.amountMax\<close> reads the number 0 as an
  absent range. With the range 0 to 10, an amount of 5 lies in the range and an amount of
  0 equals \<open>amountMin\<close>, and both score 0 where the documented factor is 15 and 20.
\<close>

theorem amountScore_zero_amountMin:
  "amountMin (ex_pattern 1 ''Corner Shop'' 3 4 4 0 (Some 0) (Some 10) False) = Some 0
   \<and> amountMax (ex_pattern 1 ''Corner Shop'' 3 4 4 0 (Some 0) (Some 10) False) = Some 10
   \<and> \<bar>amount (ex_tx 9 (2024, 6, 1) ''CORNER SHOP'' (- 5) None)\<bar> = 5
   \<and> amountScore (ex_tx 9 (2024, 6, 1) ''CORNER SHOP'' (- 5) None)
        (ex_pattern 1 ''Corner Shop'' 3 4 4 0 (Some 0) (Some 10) False) = 0
   \<and> amountScore (ex_tx 9 (2024, 6, 1) ''CORNER SHOP'' 0 None)
        (ex_pattern 1 ''Corner Shop'' 3 4 4 0 (Some 0) (Some 10) False) = 0"
  by (simp add: amountScore_def truthy_def ex_defs)

section \<open>Feedback\<close>

text \<open>
  Claim C6. When the transaction carries a pattern reference and position \<open>i\<close> holds the
  loaded pattern that \<open>find\<close> returns for it (the first one with that id),
  \<open>denySuggestion\<close> adds exactly 1 to the \<open>denyCount\<close> of that pattern and changes no other
  loaded pattern, sets \<open>categoryId\<close> to null, removes the four suggestion fields together,
  and stores the pattern and the transaction.
\<close>

theorem denySuggestion_loaded:
  assumes "truthy (suggestionPatternId t)"
    and "i < length (patterns eng)"
    and "p_id (patterns eng ! i) = suggestionPatternId t"
    and "\<forall>j < i. p_id (patterns eng ! j) \<noteq> suggestionPatternId t"
    and "denySuggestion eng t = (eng', t')"
  shows "patterns eng' =
           (patterns eng)[i := (patterns eng ! i)\<lparr>denyCount := denyCount (patterns eng ! i) + 1\<rparr>]
     \<and> denyCount (patterns eng' ! i) = denyCount (patterns eng ! i) + 1
     \<and> t' = t\<lparr>categoryId := None, pendingReview := None, suggestionConfidence := None,
              suggestionReasoning := None, suggestionPatternId := None\<rparr>
     \<and> db eng' = updateTransaction (updatePattern (db eng) (patterns eng' ! i)) t'"
proof -
  have fi: "find_index (\<lambda>p. p_id p = suggestionPatternId t) (patterns eng) = Some i"
    using assms(2-4) by (simp add: find_index_Some)
  from assms(5) assms(1) fi show ?thesis
    by (auto simp: denySuggestion_def clearSuggestion_def Let_def assms(2))
qed

theorem denySuggestion_loaded_witness:
  "truthy (suggestionPatternId (ex_suggested (ex_tx 9 (2024, 6, 1) ''WALMART #9981'' (- 45) None) 3 1))
   \<and> denyCount (patterns (fst (denySuggestion
        (ex_engine [ex_pattern 1 ''Walmart'' 3 5 5 0 (Some 40) (Some 60) False] 70)
        (ex_suggested (ex_tx 9 (2024, 6, 1) ''WALMART #9981'' (- 45) None) 3 1))) ! 0) = 1
   \<and> snd (denySuggestion
        (ex_engine [ex_pattern 1 ''Walmart'' 3 5 5 0 (Some 40) (Some 60) False] 70)
        (ex_suggested (ex_tx 9 (2024, 6, 1) ''WALMART #9981'' (- 45) None) 3 1))
      = ex_tx 9 (2024, 6, 1) ''WALMART #9981'' (- 45) None"
  using denySuggestion_loaded
    [of "ex_suggested (ex_tx 9 (2024, 6, 1) ''WALMART #9981'' (- 45) None) 3 1" 0
        "ex_engine [ex_pattern 1 ''Walmart'' 3 5 5 0 (Some 40) (Some 60) False] 70"
        "fst (denySuggestion
          (ex_engine [ex_pattern 1 ''Walmart'' 3 5 5 0 (Some 40) (Some 60) False] 70)
          (ex_suggested (ex_tx 9 (2024, 6, 1) ''WALMART #9981'' (- 45) None) 3 1))"
        "snd (denySuggestion
          (ex_engine [ex_pattern 1 ''Walmart'' 3 5 5 0 (Some 40) (Some 60) False] 70)
          (ex_suggested (ex_tx 9 (2024, 6, 1) ''WALMART #9981'' (- 45) None) 3 1))"]
  by (simp add: ex_defs ex_suggested_def truthy_def)

text \<open>
  Claim C10. When the transaction carries a pattern reference that no loaded pattern has,
  \<open>acceptSuggestion\<close> and \<open>denySuggestion\<close> still remove the four suggestion fields
  (\<open>denySuggestion\<close> also sets \<open>categoryId\<close> to null) and store the transaction; the loaded
  patterns and the stored patterns stay as they were, and no error is raised.
\<close>

theorem dangling_reference_tolerated:
  assumes "truthy (suggestionPatternId t)"
    and "\<forall>p \<in> set (patterns eng). p_id p \<noteq> suggestionPatternId t"
  shows "acceptSuggestion eng now t =
           (eng\<lparr>db := updateTransaction (db eng)
                   (t\<lparr>pendingReview := None, suggestionConfidence := None,
                      suggestionReasoning := None, suggestionPatternId := None\<rparr>)\<rparr>,
            t\<lparr>pendingReview := None, suggestionConfidence := None,
              suggestionReasoning := None, suggestionPatternId := None\<rparr>)
     \<and> denySuggestion eng t =
           (eng\<lparr>db := updateTransaction (db eng)
                   (t\<lparr>categoryId := None, pendingReview := None, suggestionConfidence := None,
                      suggestionReasoning := None, suggestionPatternId := None\<rparr>)\<rparr>,
            t\<lparr>categoryId := None, pendingReview := None, suggestionConfidence := None,
              suggestionReasoning := None, suggestionPatternId := None\<rparr>)
     \<and> patterns (fst (acceptSuggestion eng now t)) = patterns eng
     \<and> patterns (fst (denySuggestion eng t)) = patterns eng
     \<and> patternStore (db (fst (acceptSuggestion eng now t))) = patternStore (db eng)
     \<and> patternStore (db (fst (denySuggestion eng t))) = patternStore (db eng)
     \<and> snd (acceptSuggestion eng now t)
         \<in> set (transactionStore (db (fst (acceptSuggestion eng now t))))
     \<and> snd (denySuggestion eng t)
         \<in> set (transactionStore (db (fst (denySuggestion eng t))))"
proof -
  have fi: "find_index (\<lambda>p. p_id p = suggestionPatternId t) (patterns eng) = None"
    using assms(2) by (simp add: find_index_None)
  have a: "acceptSuggestion eng now t =
           (eng\<lparr>db := updateTransaction (db eng) (clearSuggestion t)\<rparr>, clearSuggestion t)"
    using assms(1) fi by (simp add: acceptSuggestion_def Let_def)
  have d: "denySuggestion eng t =
           (eng\<lparr>db := updateTransaction (db eng) (clearSuggestion (t\<lparr>categoryId := None\<rparr>))\<rparr>,
            clearSuggestion (t\<lparr>categoryId := None\<rparr>))"
    using assms(1) fi by (simp add: denySuggestion_def Let_def)
  have ps: "patternStore (updateTransaction dbs u) = patternStore dbs" for dbs u
    by (simp add: updateTransaction_def)
  show ?thesis
    unfolding a d by (simp add: clearSuggestion_def ps in_updateTransaction)
qed

theorem dangling_reference_tolerated_witness:
  "truthy (suggestionPatternId (ex_suggested (ex_tx 9 (2024, 6, 1) ''WALMART #9981'' (- 45) None) 3 7))
   \<and> snd (acceptSuggestion
        (ex_engine [ex_pattern 1 ''Walmart'' 3 5 5 0 (Some 40) (Some 60) False] 70) ''now''
        (ex_suggested (ex_tx 9 (2024, 6, 1) ''WALMART #9981'' (- 45) None) 3 7))
      = ex_tx 9 (2024, 6, 1) ''WALMART #9981'' (- 45) (Some 3)
   \<and> snd (denySuggestion
        (ex_engine [ex_pattern 1 ''Walmart'' 3 5 5 0 (Some 40) (Some 60) False] 70)
        (ex_suggested (ex_tx 9 (2024, 6, 1) ''WALMART #9981'' (- 45) None) 3 7))
      = ex_tx 9 (2024, 6, 1) ''WALMART #9981'' (- 45) None
   \<and> patterns (fst (denySuggestion
        (ex_engine [ex_pattern 1 ''Walmart'' 3 5 5 0 (Some 40) (Some 60) False] 70)
        (ex_suggested (ex_tx 9 (2024, 6, 1) ''WALMART #9981'' (- 45) None) 3 7)))
      = [ex_pattern 1 ''Walmart'' 3 5 5 0 (Some 40) (Some 60) False]"
  using dangling_reference_tolerated
    [of "ex_suggested (ex_tx 9 (2024, 6, 1) ''WALMART #9981'' (- 45) None) 3 7"
        "ex_engine [ex_pattern 1 ''Walmart'' 3 5 5 0 (Some 40) (Some 60) False] 70" "''now''"]
  by (simp add: ex_defs ex_suggested_def truthy_def)

section \<open>Merging mined patterns into the store\<close>

lemma mergeInto_frame:
  "matchCount (mergeInto existing newPattern) = matchCount newPattern"
  "lastSeen (mergeInto existing newPattern) = lastSeen newPattern"
  "isRecurring (mergeInto existing newPattern) = isRecurring newPattern"
  "recurrencePattern (mergeInto existing newPattern) = recurrencePattern newPattern"
  "acceptCount (mergeInto existing newPattern) = acceptCount existing"
  "denyCount (mergeInto existing newPattern) = denyCount existing"
  "p_id (mergeInto existing newPattern) = p_id existing"
  by (simp_all add: mergeInto_def)

lemma mergeInto_range:
  assumes "amountMin existing = Some a" and "a \<noteq> 0" and "amountMax existing = Some b"
    and "amountMin newPattern = Some c" and "amountMax newPattern = Some d" and "0 \<le> d"
  shows "amountMin (mergeInto existing newPattern) = Some (min a c)"
    and "amountMax (mergeInto existing newPattern) = Some (max b d)"
  using assms by (auto simp: mergeInto_def mergedMin_def mergedMax_def or_else_def truthy_def)

text \<open>
  Claim C4. The merge of \<open>updatePatternsInDatabase\<close> does not keep the union of the old
  and the new range when the stored \<open>amountMin\<close> is 0: \<open>existing.amountMin || Infinity\<close>
  reads the number 0 as absent. A stored range of 0 to 10 merged with a mined range of 5
  to 8 becomes 5 to 10.
\<close>

theorem merge_shrinks_zero_amountMin:
  "map (\<lambda>p. (amountMin p, amountMax p))
     (patternStore (updatePatternsInDatabase
        (db (ex_engine [ex_pattern 1 ''Corner Shop'' 3 4 4 0 (Some 0) (Some 10) False] 70))
        [\<lparr>p_id = None, merchantName = ''Corner Shop'', p_categoryId = Some 3, matchCount = 2,
          acceptCount = 2, denyCount = 0, lastSeen = ''2024-07-01T00:00:00.000Z'',
          amountMin = Some 5, amountMax = Some 8, isRecurring = False,
          recurrencePattern = None\<rparr>]))
   = [(Some 5, Some 10)]"
  by (simp add: updatePatternsInDatabase_def mergeStep_def getPatterns_def samePattern_def
      mergeInto_def mergedMin_def mergedMax_def or_else_def updatePattern_def truthy_def ex_defs
      Let_def)

section \<open>The best match\<close>

lemma considerPattern_alt:
  "considerPattern t best p =
     (if snd best < calculateConfidence t p then (Some (matchFor t p), calculateConfidence t p)
      else best)"
  by (simp add: considerPattern_def matchFor_def Let_def)

lemma foldl_considerPattern:
  "foldl (considerPattern t) (None, 0) ps = (bm, bc) \<Longrightarrow>
     (bm = None \<longrightarrow> bc = 0 \<and> (\<forall>p \<in> set ps. calculateConfidence t p \<le> 0))
     \<and> (\<forall>m. bm = Some m \<longrightarrow>
           (\<exists>i < length ps. m = matchFor t (ps ! i) \<and> bc = calculateConfidence t (ps ! i)
              \<and> 0 < bc
              \<and> (\<forall>j < length ps. calculateConfidence t (ps ! j) \<le> bc)
              \<and> (\<forall>j < i. calculateConfidence t (ps ! j) < bc)))"
proof (induction ps arbitrary: bm bc rule: rev_induct)
  case Nil
  then show ?case by simp
next
  case (snoc x xs)
  obtain bm0 bc0 where prev: "foldl (considerPattern t) (None, 0) xs = (bm0, bc0)"
    by (cases "foldl (considerPattern t) (None, 0) xs") auto
  note IH = snoc.IH [OF prev]
  have step: "(bm, bc) = considerPattern t (bm0, bc0) x"
    using snoc.prems prev by simp
  show ?case
  proof (cases "bc0 < calculateConfidence t x")
    case True
    then have eq: "bm = Some (matchFor t x)" "bc = calculateConfidence t x"
      using step by (simp_all add: considerPattern_alt)
    have le0: "0 \<le> bc0"
    proof (cases bm0)
      case None
      with IH show ?thesis by simp
    next
      case (Some m)
      with IH show ?thesis by force
    qed
    have below: "\<forall>j < length xs. calculateConfidence t (xs ! j) \<le> bc0"
    proof (cases bm0)
      case None
      with IH le0 show ?thesis by (metis nth_mem order_trans)
    next
      case (Some m)
      with IH show ?thesis by blast
    qed
    have "\<exists>i < length (xs @ [x]). matchFor t x = matchFor t ((xs @ [x]) ! i)
            \<and> bc = calculateConfidence t ((xs @ [x]) ! i) \<and> 0 < bc
            \<and> (\<forall>j < length (xs @ [x]). calculateConfidence t ((xs @ [x]) ! j) \<le> bc)
            \<and> (\<forall>j < i. calculateConfidence t ((xs @ [x]) ! j) < bc)"
    proof (intro exI [of _ "length xs"] conjI allI impI)
      show "length xs < length (xs @ [x])" by simp
      show "matchFor t x = matchFor t ((xs @ [x]) ! length xs)" by simp
      show "bc = calculateConfidence t ((xs @ [x]) ! length xs)" using eq by simp
      show "0 < bc" using eq True le0 by simp
    next
      fix j assume j: "j < length (xs @ [x])"
      show "calculateConfidence t ((xs @ [x]) ! j) \<le> bc"
      proof (cases "j = length xs")
        case True
        then show ?thesis using eq by simp
      next
        case False
        with j have jl: "j < length xs" by simp
        with below have "calculateConfidence t (xs ! j) \<le> bc0" by blast
        with True eq jl show ?thesis by (simp add: nth_append)
      qed
    next
      fix j assume jl: "j < length xs"
      with below have "calculateConfidence t (xs ! j) \<le> bc0" by blast
      with True eq jl show "calculateConfidence t ((xs @ [x]) ! j) < bc"
        by (simp add: nth_append)
    qed
    with eq show ?thesis by simp
  next
    case False
    then have eq: "bm = bm0" "bc = bc0"
      using step by (simp_all add: considerPattern_alt)
    show ?thesis
    proof (cases bm0)
      case None
      with IH eq False show ?thesis by auto
    next
      case (Some m)
      with IH obtain i where i: "i < length xs" "m = matchFor t (xs ! i)"
        "bc0 = calculateConfidence t (xs ! i)" "0 < bc0"
        "\<forall>j < length xs. calculateConfidence t (xs ! j) \<le> bc0"
        "\<forall>j < i. calculateConfidence t (xs ! j) < bc0"
        by blast
      have "\<exists>i < length (xs @ [x]). m = matchFor t ((xs @ [x]) ! i)
            \<and> bc0 = calculateConfidence t ((xs @ [x]) ! i) \<and> 0 < bc0
            \<and> (\<forall>j < length (xs @ [x]). calculateConfidence t ((xs @ [x]) ! j) \<le> bc0)
            \<and> (\<forall>j < i. calculateConfidence t ((xs @ [x]) ! j) < bc0)"
      proof (intro exI [of _ i] conjI allI impI)
        show "i < length (xs @ [x])" using i(1) by simp
        show "m = matchFor t ((xs @ [x]) ! i)" using i by (simp add: nth_append)
        show "bc0 = calculateConfidence t ((xs @ [x]) ! i)" using i by (simp add: nth_append)
        show "0 < bc0" by (rule i(4))
      next
        fix j assume j: "j < length (xs @ [x])"
        show "calculateConfidence t ((xs @ [x]) ! j) \<le> bc0"
        proof (cases "j = length xs")
          case True
          then show ?thesis using False by simp
        next
          case neq: False
          with j have jl: "j < length xs" by simp
          with i(5) have "calculateConfidence t (xs ! j) \<le> bc0" by blast
          with jl show ?thesis by (simp add: nth_append)
        qed
      next
        fix j assume ji: "j < i"
        with i(6) have "calculateConfidence t (xs ! j) < bc0" by blast
        with ji i(1) show "calculateConfidence t ((xs @ [x]) ! j) < bc0"
          by (simp add: nth_append)
      qed
      with Some eq show ?thesis by simp
    qed
  qed
qed

text \<open>
  Claim C5, as stated, fails at the threshold 0. The loop starts from
  \<open>bestConfidence = 0\<close> and replaces the best match only on a strictly greater confidence,
  so a pattern that scores 0 is never a match: for a description with the merchant name
  \<open>Walmart\<close>, a single loaded pattern that scores 0 and the threshold 0, the best score
  equals the threshold and no match is returned.
\<close>

theorem findBestMatch_threshold_counterexample:
  "normalizeMerchant (description (ex_tx 9 (2024, 6, 1) ''WALMART #9981'' (- 45) None))
     = ''Walmart''
   \<and> calculateConfidence (ex_tx 9 (2024, 6, 1) ''WALMART #9981'' (- 45) None)
      (ex_pattern 1 ''Netflix'' 3 1 0 3 (Some 10) (Some 20) False) = 0
   \<and> confidenceThreshold (ex_engine [ex_pattern 1 ''Netflix'' 3 1 0 3 (Some 10) (Some 20) False] 0) = 0
   \<and> findBestMatch (ex_engine [ex_pattern 1 ''Netflix'' 3 1 0 3 (Some 10) (Some 20) False] 0)
        (ex_tx 9 (2024, 6, 1) ''WALMART #9981'' (- 45) None) = None"
  by (simp add: findBestMatch_def considerPattern_def score_defs ex_defs nm_walmart_9981
      sim_walmart_netflix)

text \<open>
  Claim C5, amended. For a transaction whose normalized merchant name is not empty,
  \<open>findBestMatch\<close> scores every loaded pattern and returns a match exactly when some
  pattern scores above 0 and at least the threshold; the match returned is the first
  pattern of maximal confidence (every pattern scores at most as much, every earlier one
  strictly less), with that confidence and its reasoning. So a best score equal to a
  threshold above 0 is accepted, and a best score of 0 is no match at any threshold.
\<close>

theorem findBestMatch_first_maximum:
  assumes "normalizeMerchant (description t) \<noteq> []"
  shows "(findBestMatch eng t \<noteq> None \<longleftrightarrow>
            (\<exists>p \<in> set (patterns eng).
               0 < calculateConfidence t p \<and> confidenceThreshold eng \<le> calculateConfidence t p))
     \<and> (\<forall>m. findBestMatch eng t = Some m \<longrightarrow>
           (\<exists>i < length (patterns eng).
              m = \<lparr>m_pattern = patterns eng ! i,
                   m_confidence = calculateConfidence t (patterns eng ! i),
                   m_reasoning = generateReasoning t (patterns eng ! i)
                                   (calculateConfidence t (patterns eng ! i))\<rparr>
              \<and> (\<forall>j < length (patterns eng).
                    calculateConfidence t (patterns eng ! j) \<le> calculateConfidence t (patterns eng ! i))
              \<and> (\<forall>j < i.
                    calculateConfidence t (patterns eng ! j) < calculateConfidence t (patterns eng ! i))
              \<and> confidenceThreshold eng \<le> calculateConfidence t (patterns eng ! i)))"
proof -
  obtain bm bc where best: "foldl (considerPattern t) (None, 0) (patterns eng) = (bm, bc)"
    by (cases "foldl (considerPattern t) (None, 0) (patterns eng)") auto
  note inv = foldl_considerPattern [OF best]
  have fbm: "findBestMatch eng t = (if bm \<noteq> None \<and> confidenceThreshold eng \<le> bc then bm else None)"
    using assms best by (simp add: findBestMatch_def Let_def)
  have part1: "findBestMatch eng t \<noteq> None \<longleftrightarrow>
            (\<exists>p \<in> set (patterns eng).
               0 < calculateConfidence t p \<and> confidenceThreshold eng \<le> calculateConfidence t p)"
  proof (cases bm)
    case None
    with inv fbm show ?thesis by force
  next
    case (Some m)
    with inv obtain i where i: "i < length (patterns eng)"
      "bc = calculateConfidence t (patterns eng ! i)" "0 < bc"
      "\<forall>j < length (patterns eng). calculateConfidence t (patterns eng ! j) \<le> bc"
      by blast
    show ?thesis
    proof
      assume "findBestMatch eng t \<noteq> None"
      then have "confidenceThreshold eng \<le> bc" using fbm by (auto split: if_splits)
      with i show "\<exists>p \<in> set (patterns eng).
               0 < calculateConfidence t p \<and> confidenceThreshold eng \<le> calculateConfidence t p"
        by (metis nth_mem)
    next
      assume "\<exists>p \<in> set (patterns eng).
               0 < calculateConfidence t p \<and> confidenceThreshold eng \<le> calculateConfidence t p"
      then obtain p where p: "p \<in> set (patterns eng)"
        "confidenceThreshold eng \<le> calculateConfidence t p" by blast
      then obtain j where "j < length (patterns eng)" "patterns eng ! j = p"
        by (auto simp: in_set_conv_nth)
      with i(4) p(2) have "confidenceThreshold eng \<le> bc" by force
      with Some fbm show "findBestMatch eng t \<noteq> None" by simp
    qed
  qed
  have part2: "\<exists>i < length (patterns eng).
              m = \<lparr>m_pattern = patterns eng ! i,
                   m_confidence = calculateConfidence t (patterns eng ! i),
                   m_reasoning = generateReasoning t (patterns eng ! i)
                                   (calculateConfidence t (patterns eng ! i))\<rparr>
              \<and> (\<forall>j < length (patterns eng).
                    calculateConfidence t (patterns eng ! j) \<le> calculateConfidence t (patterns eng ! i))
              \<and> (\<forall>j < i.
                    calculateConfidence t (patterns eng ! j) < calculateConfidence t (patterns eng ! i))
              \<and> confidenceThreshold eng \<le> calculateConfidence t (patterns eng ! i)"
    if m: "findBestMatch eng t = Some m" for m
  proof -
    from m fbm have bm: "bm = Some m" and thr: "confidenceThreshold eng \<le> bc"
      by (auto split: if_splits)
    with inv obtain i where i: "i < length (patterns eng)" "m = matchFor t (patterns eng ! i)"
      "bc = calculateConfidence t (patterns eng ! i)"
      "\<forall>j < length (patterns eng). calculateConfidence t (patterns eng ! j) \<le> bc"
      "\<forall>j < i. calculateConfidence t (patterns eng ! j) < bc"
      by blast
    show ?thesis
      using i thr by (intro exI [of _ i]) (simp add: matchFor_def)
  qed
  from part1 part2 show ?thesis by blast
qed

theorem findBestMatch_first_maximum_witness:
  "normalizeMerchant (description (ex_tx 9 (2024, 6, 1) ''WALMART #9981'' (- 45) None)) \<noteq> []
   \<and> calculateConfidence (ex_tx 9 (2024, 6, 1) ''WALMART #9981'' (- 45) None)
        (ex_pattern 2 ''Walmart'' 4 5 5 0 (Some 40) (Some 60) False) = 80
   \<and> findBestMatch
        (ex_engine [ex_pattern 1 ''Netflix'' 3 1 0 3 (Some 10) (Some 20) False,
                    ex_pattern 2 ''Walmart'' 4 5 5 0 (Some 40) (Some 60) False,
                    ex_pattern 3 ''Walmart'' 5 5 5 0 (Some 40) (Some 60) False] 80)
        (ex_tx 9 (2024, 6, 1) ''WALMART #9981'' (- 45) None) \<noteq> None"
proof -
  let ?t = "ex_tx 9 (2024, 6, 1) ''WALMART #9981'' (- 45) None"
  let ?p = "ex_pattern 2 ''Walmart'' 4 5 5 0 (Some 40) (Some 60) False"
  let ?e = "ex_engine [ex_pattern 1 ''Netflix'' 3 1 0 3 (Some 10) (Some 20) False, ?p,
                    ex_pattern 3 ''Walmart'' 5 5 5 0 (Some 40) (Some 60) False] 80"
  have h: "normalizeMerchant (description ?t) \<noteq> []"
    by (simp add: ex_defs nm_walmart_9981)
  have c: "calculateConfidence ?t ?p = 80"
    by (simp add: score_defs ex_defs nm_walmart_9981 sim_walmart)
  have "?p \<in> set (patterns ?e)" "confidenceThreshold ?e = 80"
    by (simp_all add: ex_engine_def)
  with c have "\<exists>p \<in> set (patterns ?e).
      0 < calculateConfidence ?t p \<and> confidenceThreshold ?e \<le> calculateConfidence ?t p"
    by (intro bexI [of _ ?p]) simp_all
  with findBestMatch_first_maximum [OF h, of ?e] have "findBestMatch ?e ?t \<noteq> None"
    by blast
  with h c show ?thesis by blast
qed

section \<open>Recurring transactions\<close>












section \<open>Normalization\<close>

lemma canonical_fixed_1:
  "normalizeMerchant ''Walmart'' = ''Walmart''" "normalizeMerchant ''Target'' = ''Target''"
  "normalizeMerchant ''Starbucks'' = ''Starbucks''" "normalizeMerchant ''Amazon'' = ''Amazon''"
  by (simp_all add: nm_eval)

lemma canonical_fixed_2:
  "normalizeMerchant ''Netflix'' = ''Netflix''" "normalizeMerchant ''Spotify'' = ''Spotify''"
  "normalizeMerchant ''Shell'' = ''Shell''" "normalizeMerchant ''Chevron'' = ''Chevron''"
  by (simp_all add: nm_eval)

lemma canonical_fixed_3:
  "normalizeMerchant ''Costco'' = ''Costco''" "normalizeMerchant ''Safeway'' = ''Safeway''"
  "normalizeMerchant ''Kroger'' = ''Kroger''" "normalizeMerchant ''Lowes'' = ''Lowes''"
  by (simp_all add: nm_eval)

lemma canonical_fixed_4:
  "normalizeMerchant ''Whole Foods'' = ''Whole Foods''"
  "normalizeMerchant ''Trader Joes'' = ''Trader Joes''"
  by (simp_all add: nm_eval)

lemma canonical_fixed_5:
  "normalizeMerchant ''Home Depot'' = ''Home Depot''"
  "normalizeMerchant ''Best Buy'' = ''Best Buy''"
  by (simp_all add: nm_eval)

lemmas canonical_fixed = canonical_fixed_1 canonical_fixed_2 canonical_fixed_3 canonical_fixed_4
  canonical_fixed_5

lemma nm_joes_1: "normalizeMerchant ''JOES DINER 123 456'' = ''JOES DINER 123''"
  by (simp add: nm_eval)

lemma nm_joes_2: "normalizeMerchant ''JOES DINER 123'' = ''JOES DINER''"
  by (simp add: nm_eval)

lemma nm_walmart_1234: "normalizeMerchant ''WALMART #1234'' = ''Walmart''"
  by (simp add: nm_eval)

text \<open>
  Claim C9, as stated for every description, fails: each pass removes one trailing group
  of 3 to 5 digits, so a description with two such groups loses one group per pass.
\<close>

theorem normalizeMerchant_not_idempotent_counterexample:
  "normalizeMerchant ''JOES DINER 123 456'' = ''JOES DINER 123''
   \<and> normalizeMerchant (normalizeMerchant ''JOES DINER 123 456'') = ''JOES DINER''
   \<and> normalizeMerchant (normalizeMerchant ''JOES DINER 123 456'')
       \<noteq> normalizeMerchant ''JOES DINER 123 456''"
  by (simp add: nm_joes_1 nm_joes_2)

text \<open>
  Claim C9, amended. \<open>normalizeMerchant\<close> is a function of its argument, and it is
  idempotent on canonical merchant names: whenever the result for a description is one
  of the names of the merchant table, normalizing that result returns it unchanged.
\<close>

theorem normalizeMerchant_idempotent_canonical:
  assumes "normalizeMerchant x \<in> set (map snd merchantMappings)"
  shows "normalizeMerchant (normalizeMerchant x) = normalizeMerchant x"
proof -
  have "\<forall>n \<in> set (map snd merchantMappings). normalizeMerchant n = n"
    by (simp add: merchantMappings_def canonical_fixed)
  with assms show ?thesis by blast
qed

theorem normalizeMerchant_idempotent_canonical_witness:
  "normalizeMerchant ''WALMART #1234'' \<in> set (map snd merchantMappings)
   \<and> normalizeMerchant (normalizeMerchant ''WALMART #1234'') = normalizeMerchant ''WALMART #1234''"
proof -
  have h: "normalizeMerchant ''WALMART #1234'' \<in> set (map snd merchantMappings)"
    by (simp add: nm_walmart_1234 merchantMappings_def)
  from normalizeMerchant_idempotent_canonical [OF h] h show ?thesis by blast
qed

section \<open>Similarity\<close>

lemma edit_rec_Nil2: "edit_rec xs [] = length xs"
  by (cases xs) simp_all

lemma edit_rec_commute: "edit_rec xs ys = edit_rec ys xs"
  by (induction xs ys rule: edit_rec.induct) (auto simp: edit_rec_Nil2 min.commute min.left_commute)

lemma cell_spec_0_left: "j \<le> length str1 \<Longrightarrow> cell_spec str1 str2 0 j = j"
  by (simp add: cell_spec_def)

lemma cell_spec_0_right: "i \<le> length str2 \<Longrightarrow> cell_spec str1 str2 i 0 = i"
  by (simp add: cell_spec_def edit_rec_Nil2)

lemma rev_take_Suc: "k < length s \<Longrightarrow> rev (take (Suc k) s) = s ! k # rev (take k s)"
  by (simp add: take_Suc_conv_app_nth)

lemma cell_spec_step:
  assumes "0 < i" "i \<le> length str2" "0 < j" "j \<le> length str1"
  shows "cell_spec str1 str2 i j =
     (if str2 ! (i - 1) = str1 ! (j - 1) then cell_spec str1 str2 (i - 1) (j - 1)
      else min (cell_spec str1 str2 (i - 1) (j - 1) + 1)
               (min (cell_spec str1 str2 i (j - 1) + 1) (cell_spec str1 str2 (i - 1) j + 1)))"
proof -
  obtain i' j' where ij: "i = Suc i'" "j = Suc j'"
    using assms by (metis Suc_pred)
  with assms have lt: "i' < length str2" "j' < length str1" by simp_all
  show ?thesis
    unfolding cell_spec_def ij
    by (simp add: rev_take_Suc [OF lt(1)] rev_take_Suc [OF lt(2)])
qed

lemma lev_init_rows:
  "foldl (\<lambda>matrix j. matrix[0 := js_set (matrix ! 0) j j]) ([0] # rest) [Suc 0..<Suc k]
     = [0..<Suc k] # rest"
  by (induction k) (simp_all add: js_set_def)

lemma lev_init_eq:
  "lev_init str1 str2 = row_spec str1 str2 0 # map (\<lambda>i. [i]) [1..<Suc (length str2)]"
proof -
  have m0: "map (\<lambda>i. [i]) [0..<Suc (length str2)] = [0] # map (\<lambda>i. [i]) [1..<Suc (length str2)]"
    by (simp add: upt_conv_Cons del: upt_Suc)
  have js: "[0..<Suc (length str1)] = 0 # [1..<Suc (length str1)]"
    by (simp add: upt_conv_Cons del: upt_Suc)
  have first: "js_set [0::nat] 0 0 = [0]"
    by (simp add: js_set_def)
  have row0: "row_spec str1 str2 0 = [0..<Suc (length str1)]"
    unfolding row_spec_def
    by (rule trans [OF map_cong [OF refl, of _ _ id]]) (auto simp: cell_spec_0_left simp del: upt_Suc)
  show ?thesis
    unfolding lev_init_def m0
    by (subst js) (simp add: first lev_init_rows row0 del: upt_Suc)
qed

lemma lev_row_fold:
  assumes len: "length m = Suc (length str2)"
    and i: "0 < i" "i \<le> length str2"
    and prev: "m ! (i - 1) = row_spec str1 str2 (i - 1)"
    and cur: "m ! i = [i]"
  shows "k \<le> length str1 \<Longrightarrow>
     foldl (\<lambda>m j. m[i := js_set (m ! i) j (lev_cell str1 str2 m i j)]) m [Suc 0..<Suc k]
       = m[i := map (cell_spec str1 str2 i) [0..<Suc k]]"
proof (induction k)
  case 0
  have "m[i := [cell_spec str1 str2 i 0]] = m"
    using cur i by (simp add: cell_spec_0_right list_update_same_conv len)
  then show ?case by simp
next
  case (Suc k)
  let ?m = "m[i := map (cell_spec str1 str2 i) [0..<Suc k]]"
  have il: "i < length m" "i - 1 < length m" using len i by simp_all
  have k: "k < length str1" "Suc k \<le> length str1" using Suc.prems by simp_all
  have rowi: "?m ! i = map (cell_spec str1 str2 i) [0..<Suc k]"
    using il by simp
  have rowp: "?m ! (i - Suc 0) = row_spec str1 str2 (i - Suc 0)"
    using il i prev by simp
  have c1: "?m ! (i - Suc 0) ! k = cell_spec str1 str2 (i - Suc 0) k"
    unfolding rowp row_spec_def using k by (simp del: upt_Suc)
  have c2: "?m ! (i - Suc 0) ! Suc k = cell_spec str1 str2 (i - Suc 0) (Suc k)"
    unfolding rowp row_spec_def using k by (simp del: upt_Suc)
  have c3: "?m ! i ! k = cell_spec str1 str2 i k"
    unfolding rowi by (simp del: upt_Suc)
  have cell: "lev_cell str1 str2 ?m i (Suc k) = cell_spec str1 str2 i (Suc k)"
    using cell_spec_step [of i str2 "Suc k" str1] i k
    by (simp add: lev_cell_def c1 c2 c3 del: upt_Suc)
  have "foldl (\<lambda>m j. m[i := js_set (m ! i) j (lev_cell str1 str2 m i j)]) m [Suc 0..<Suc (Suc k)]
      = ?m[i := js_set (?m ! i) (Suc k) (lev_cell str1 str2 ?m i (Suc k))]"
    using Suc.IH k by simp
  also have "\<dots> = m[i := map (cell_spec str1 str2 i) [0..<Suc (Suc k)]]"
    unfolding cell rowi by (simp add: js_set_def)
  finally show ?case .
qed

lemma lev_row_eq:
  assumes "length m = Suc (length str2)" "0 < i" "i \<le> length str2"
    and "m ! (i - 1) = row_spec str1 str2 (i - 1)" "m ! i = [i]"
  shows "lev_row str1 str2 m i = m[i := row_spec str1 str2 i]"
  unfolding lev_row_def row_spec_def
  using lev_row_fold [OF assms, of "length str1"] by simp

lemma lev_matrix_fold:
  "k \<le> length str2 \<Longrightarrow>
   foldl (lev_row str1 str2) (lev_init str1 str2) [Suc 0..<Suc k]
     = map (row_spec str1 str2) [0..<Suc k] @ map (\<lambda>i. [i]) [Suc k..<Suc (length str2)]"
proof (induction k)
  case 0
  then show ?case by (simp add: lev_init_eq)
next
  case (Suc k)
  let ?m = "map (row_spec str1 str2) [0..<Suc k] @ map (\<lambda>i. [i]) [Suc k..<Suc (length str2)]"
  have k: "k < length str2" using Suc.prems by simp
  have len: "length ?m = Suc (length str2)" using k by simp
  have prev: "?m ! (Suc k - 1) = row_spec str1 str2 (Suc k - 1)"
    by (simp add: nth_append del: upt_Suc)
  have cur: "?m ! Suc k = [Suc k]"
    using k by (simp add: nth_append del: upt_Suc)
  have "foldl (lev_row str1 str2) (lev_init str1 str2) [Suc 0..<Suc (Suc k)]
      = lev_row str1 str2 ?m (Suc k)"
    using Suc.IH k by simp
  also have "\<dots> = ?m[Suc k := row_spec str1 str2 (Suc k)]"
    using lev_row_eq [OF len _ _ prev cur] Suc.prems by simp
  also have "\<dots> = (map (row_spec str1 str2) [0..<Suc k] @ [row_spec str1 str2 (Suc k)])
                    @ map (\<lambda>i. [i]) [Suc (Suc k)..<Suc (length str2)]"
    using k by (simp add: list_update_append upt_conv_Cons [of "Suc k"] del: upt_Suc)
  also have "\<dots> = map (row_spec str1 str2) [0..<Suc (Suc k)]
                    @ map (\<lambda>i. [i]) [Suc (Suc k)..<Suc (length str2)]"
    by simp
  finally show ?case .
qed

lemma levenshteinDistance_edit_rec:
  "levenshteinDistance str1 str2 = edit_rec (rev str2) (rev str1)"
proof -
  have "lev_matrix str1 str2 = map (row_spec str1 str2) [0..<Suc (length str2)]"
    unfolding lev_matrix_def using lev_matrix_fold [of "length str2" str2 str1] by simp
  then show ?thesis
    by (simp add: levenshteinDistance_def row_spec_def cell_spec_def del: upt_Suc)
qed

lemma levenshteinDistance_commute:
  "levenshteinDistance str1 str2 = levenshteinDistance str2 str1"
  by (simp add: levenshteinDistance_edit_rec edit_rec_commute)

text \<open>
  Claim C8. The similarity of a non-empty string with itself is 100, and similarity is
  symmetric: \<open>calculateSimilarity a b = calculateSimilarity b a\<close> for all strings.
\<close>

theorem calculateSimilarity_reflexive_symmetric:
  "(a \<noteq> [] \<longrightarrow> calculateSimilarity a a = 100)
   \<and> calculateSimilarity a b = calculateSimilarity b a"
proof
  show "a \<noteq> [] \<longrightarrow> calculateSimilarity a a = 100"
    by (simp add: calculateSimilarity_def)
next
  have lev: "levenshteinDistance (toLowerCase a) (toLowerCase b)
           = levenshteinDistance (toLowerCase b) (toLowerCase a)"
    by (rule levenshteinDistance_commute)
  show "calculateSimilarity a b = calculateSimilarity b a"
    unfolding calculateSimilarity_def Let_def lev
    by (auto simp: max.commute)
qed

theorem calculateSimilarity_reflexive_symmetric_witness:
  "''Walmart'' \<noteq> [] \<and> calculateSimilarity ''Walmart'' ''Walmart'' = 100
   \<and> calculateSimilarity ''Netflix'' ''Walmart'' = 0"
  using calculateSimilarity_reflexive_symmetric [of "''Walmart''" "''Netflix''"]
  by (simp add: sim_walmart_netflix)

section \<open>Mining and matching, end to end\<close>

lemma collect_same_key:
  fixes m :: string and c :: "nat option"
  defines "key \<equiv> m @ ''|'' @ show_id c"
  assumes "\<forall>t \<in> set ts. normalizeMerchant (description t) = m \<and> categoryId t = c"
    and "m \<noteq> []"
  shows "foldl collect [(key, d)] ts =
           [(key, d\<lparr>d_transactions := d_transactions d @ ts,
                    d_amounts := d_amounts d @ map (\<lambda>t. \<bar>amount t\<bar>) ts\<rparr>)]"
  using assms(2)
proof (induction ts arbitrary: d)
  case Nil
  then show ?case by simp
next
  case (Cons t ts)
  have k: "normalizeMerchant (description t) @ ''|'' @ show_id (categoryId t) = key"
    using Cons.prems by (simp add: key_def)
  have step: "collect [(key, d)] t =
      [(key, d\<lparr>d_transactions := d_transactions d @ [t],
               d_amounts := d_amounts d @ [\<bar>amount t\<bar>]\<rparr>)]"
    using Cons.prems assms(3) unfolding collect_def Let_def k by simp
  show ?case
    using Cons.IH [of "d\<lparr>d_transactions := d_transactions d @ [t],
                          d_amounts := d_amounts d @ [\<bar>amount t\<bar>]\<rparr>"] Cons.prems
    by (simp add: step)
qed

lemma collect_one_group:
  fixes m :: string and c :: "nat option"
  defines "key \<equiv> m @ ''|'' @ show_id c"
  assumes "\<forall>t \<in> set ts. normalizeMerchant (description t) = m \<and> categoryId t = c"
    and "m \<noteq> []" and "ts \<noteq> []"
  shows "foldl collect [] ts =
           [(key, \<lparr>d_merchantName = m, d_categoryId = c, d_transactions = ts,
                   d_amounts = map (\<lambda>t. \<bar>amount t\<bar>) ts\<rparr>)]"
proof -
  obtain t rest where ts: "ts = t # rest" using assms(4) by (cases ts) auto
  have k: "normalizeMerchant (description t) @ ''|'' @ show_id (categoryId t) = key"
    using assms(2) ts by (simp add: key_def)
  have first: "collect [] t =
      [(key, \<lparr>d_merchantName = m, d_categoryId = c, d_transactions = [t],
               d_amounts = [\<bar>amount t\<bar>]\<rparr>)]"
    using assms(2,3) ts unfolding collect_def Let_def k by simp
  have rest: "\<forall>t \<in> set rest. normalizeMerchant (description t) = m \<and> categoryId t = c"
    using assms(2) ts by simp
  show ?thesis
    unfolding ts key_def
    using collect_same_key [OF rest assms(3)] first by (simp add: key_def)
qed

lemma minedPatterns_one_group:
  assumes "\<forall>t \<in> set ts. minable t \<and> normalizeMerchant (description t) = m \<and> categoryId t = c"
    and "m \<noteq> []" and "ts \<noteq> []"
  shows "minedPatterns tz now ts =
           [toPattern tz now \<lparr>d_merchantName = m, d_categoryId = c, d_transactions = ts,
                            d_amounts = map (\<lambda>t. \<bar>amount t\<bar>) ts\<rparr>]"
proof -
  have f: "filter minable ts = ts" using assms(1) by (simp add: filter_id_conv)
  have "\<forall>t \<in> set ts. normalizeMerchant (description t) = m \<and> categoryId t = c"
    using assms(1) by blast
  from collect_one_group [OF this assms(2,3)] show ?thesis
    by (simp add: minedPatterns_def f)
qed

lemma updatePatternsInDatabase_empty_store:
  assumes "patternStore dbs = []"
  shows "patternStore (updatePatternsInDatabase dbs [p]) = [p\<lparr>p_id := Some (Suc (patternKey dbs))\<rparr>]"
  using assms
  by (simp add: updatePatternsInDatabase_def mergeStep_def getPatterns_def addPattern_def Let_def)

lemma confidence_walmart:
  assumes "description new = ''WALMART #9981''" and "\<bar>amount new\<bar> = 45"
    and "merchantName p = ''Walmart''" and "matchCount p = 5" and "acceptCount p = 5"
    and "denyCount p = 0" and "amountMin p = Some 40" and "amountMax p = Some 60"
  shows "calculateConfidence new p = (if isRecurring p then 90 else 80)"
  using assms by (simp add: score_defs nm_walmart_9981 sim_walmart)

text \<open>
  Claim C1. Mining a history of exactly five categorized, non-split transactions without
  a pending suggestion, each with the description \<open>WALMART #1234\<close> and the same category,
  whose absolute amounts have minimum 40 and maximum 60, into an empty pattern store leaves
  one pattern in the store: \<open>Walmart\<close>, that category, \<open>matchCount = 5\<close>, \<open>amountMin = 40\<close>,
  \<open>amountMax = 60\<close>. With the threshold 70, \<open>findBestMatch\<close> on a transaction with the
  description \<open>WALMART #9981\<close> and the absolute amount 45 then returns a match for that
  pattern with a confidence of at least 70.
\<close>

theorem walmart_end_to_end:
  assumes "length ts = 5"
    and "\<forall>t \<in> set ts. description t = ''WALMART #1234'' \<and> categoryId t = Some g
            \<and> \<not> isSplit t \<and> pendingReview t \<noteq> Some True"
    and "g \<noteq> 0"
    and "Min ((\<lambda>t. \<bar>amount t\<bar>) ` set ts) = 40"
    and "Max ((\<lambda>t. \<bar>amount t\<bar>) ` set ts) = 60"
    and "patternStore (db eng) = []"
    and "confidenceThreshold eng = 70"
    and "description new = ''WALMART #9981''" and "\<bar>amount new\<bar> = 45"
  shows "\<exists>p. patternStore (db (fst (minePatterns eng tz now ts))) = [p]
           \<and> merchantName p = ''Walmart'' \<and> p_categoryId p = Some g \<and> matchCount p = 5
           \<and> amountMin p = Some 40 \<and> amountMax p = Some 60
           \<and> (\<exists>m. findBestMatch (fst (minePatterns eng tz now ts)) new = Some m
                  \<and> m_pattern m = p \<and> 70 \<le> m_confidence m)"
proof -
  let ?data = "\<lparr>d_merchantName = ''Walmart'', d_categoryId = Some g, d_transactions = ts,
                d_amounts = map (\<lambda>t. \<bar>amount t\<bar>) ts\<rparr>"
  let ?p = "(toPattern tz now ?data)\<lparr>p_id := Some (Suc (patternKey (db eng)))\<rparr>"
  let ?eng = "fst (minePatterns eng tz now ts)"
  have ne: "ts \<noteq> []" using assms(1) by auto
  have all: "\<forall>t \<in> set ts. minable t \<and> normalizeMerchant (description t) = ''Walmart''
                \<and> categoryId t = Some g"
    using assms(2,3) by (simp add: minable_def truthy_def nm_walmart_1234)
  have mined: "minedPatterns tz now ts = [toPattern tz now ?data]"
    by (rule minedPatterns_one_group [OF all _ ne]) simp
  have store: "patternStore (db ?eng) = [?p]"
    using updatePatternsInDatabase_empty_store [OF assms(6)]
    by (simp add: minePatterns_def mined Let_def)
  have loaded: "patterns ?eng = [?p]"
    using updatePatternsInDatabase_empty_store [OF assms(6)]
    by (simp add: minePatterns_def mined Let_def getPatterns_def)
  have thr: "confidenceThreshold ?eng = 70"
    using assms(7) by (simp add: minePatterns_def Let_def)
  have fields: "merchantName ?p = ''Walmart''" "p_categoryId ?p = Some g" "matchCount ?p = 5"
    "acceptCount ?p = 5" "denyCount ?p = 0"
    using assms(1) by (simp_all add: toPattern_def Let_def)
  have range: "amountMin ?p = Some 40" "amountMax ?p = Some 60"
    using assms(4,5) by (simp_all add: toPattern_def Let_def)
  have conf: "calculateConfidence new ?p = (if isRecurring ?p then 90 else 80)"
    by (rule confidence_walmart [OF assms(8,9) fields(1,3,4,5) range])
  have found: "findBestMatch ?eng new = Some (matchFor new ?p)"
    using conf by (simp add: findBestMatch_def loaded thr assms(8) nm_walmart_9981
        considerPattern_alt Let_def)
  have "m_pattern (matchFor new ?p) = ?p" "70 \<le> m_confidence (matchFor new ?p)"
    using conf by (simp_all add: matchFor_def)
  with store fields range found show ?thesis by blast
qed

theorem walmart_end_to_end_witness:
  "length ex_history = 5
   \<and> list_all (\<lambda>t. description t = ''WALMART #1234'' \<and> categoryId t = Some 3
                   \<and> \<not> isSplit t \<and> pendingReview t \<noteq> Some True) ex_history
   \<and> Min ((\<lambda>t. \<bar>amount t\<bar>) ` set ex_history) = 40
   \<and> Max ((\<lambda>t. \<bar>amount t\<bar>) ` set ex_history) = 60
   \<and> (\<exists>p. patternStore (db (fst (minePatterns (ex_engine [] 70) (\<lambda>d. - 300) ''2024-06-01'' ex_history))) = [p]
           \<and> merchantName p = ''Walmart'' \<and> p_categoryId p = Some 3 \<and> matchCount p = 5
           \<and> amountMin p = Some 40 \<and> amountMax p = Some 60
           \<and> (\<exists>m. findBestMatch (fst (minePatterns (ex_engine [] 70) (\<lambda>d. - 300) ''2024-06-01'' ex_history))
                      (ex_tx 9 (2024, 6, 1) ''WALMART #9981'' (- 45) None) = Some m
                  \<and> m_pattern m = p \<and> 70 \<le> m_confidence m))"
proof -
  have h1: "length ex_history = 5" by (simp add: ex_history_def)
  have h2: "\<forall>t \<in> set ex_history. description t = ''WALMART #1234'' \<and> categoryId t = Some 3
          \<and> \<not> isSplit t \<and> pendingReview t \<noteq> Some True"
    by (simp add: ex_history_def ex_tx_def)
  have h3: "(3::nat) \<noteq> 0" by simp
  have h4: "Min ((\<lambda>t. \<bar>amount t\<bar>) ` set ex_history) = 40"
    by (simp add: ex_history_def ex_tx_def)
  have h5: "Max ((\<lambda>t. \<bar>amount t\<bar>) ` set ex_history) = 60"
    by (simp add: ex_history_def ex_tx_def)
  have h6: "patternStore (db (ex_engine [] 70)) = []" by (simp add: ex_engine_def)
  have h7: "confidenceThreshold (ex_engine [] 70) = 70" by (simp add: ex_engine_def)
  have h8: "description (ex_tx 9 (2024, 6, 1) ''WALMART #9981'' (- 45) None) = ''WALMART #9981''"
    by (simp add: ex_tx_def)
  have h9: "\<bar>amount (ex_tx 9 (2024, 6, 1) ''WALMART #9981'' (- 45) None)\<bar> = 45"
    by (simp add: ex_tx_def)
  have h2': "list_all (\<lambda>t. description t = ''WALMART #1234'' \<and> categoryId t = Some 3
                   \<and> \<not> isSplit t \<and> pendingReview t \<noteq> Some True) ex_history"
    using h2 by (simp only: list_all_iff)
  from walmart_end_to_end [OF h1 h2 h3 h4 h5 h6 h7 h8 h9, of "\<lambda>d. - 300" "''2024-06-01''"]
    h1 h2' h4 h5
  show ?thesis by blast
qed

end
